theory Spec2Isabelle
  imports Main
begin

section \<open>Selector expressions of rush-lib\<close>

text \<open>
  The embedding follows \<^verbatim>\<open>RushProjectSelector\<close> (api/RushProjectSelector.ts),
  \<^verbatim>\<open>JsonFileSelectorParser\<close> (logic/selectors/JsonFileSelectorParser.ts) and
  \<^verbatim>\<open>SelectorExpressionJsonFile\<close> (api/SelectorExpressionJsonFile.ts).

  An expression is a JSON object. The evaluator reads the properties \<^verbatim>\<open>scope\<close>,
  \<^verbatim>\<open>value\<close>, \<^verbatim>\<open>filter\<close>, \<^verbatim>\<open>arg\<close>, \<^verbatim>\<open>op\<close> and \<^verbatim>\<open>args\<close> of it and
  no other; a property that the object does not have reads as \<^verbatim>\<open>undefined\<close>,
  which is \<open>None\<close> here. The three interfaces \<^verbatim>\<open>ISelectorJson\<close>,
  \<^verbatim>\<open>IFilterJson\<close> and \<^verbatim>\<open>IOperatorJson\<close> give the properties their types.
\<close>

datatype ExpressionJson =
  ExpressionJson
    (scope_prop: "string option")
    (value_prop: "string option")
    (filter_prop: "string option")
    (arg_prop: "ExpressionJson option")
    (op_prop: "string option")
    (args_prop: "ExpressionJson list option")

text \<open>The object literals \<^verbatim>\<open>{scope, value}\<close>, \<^verbatim>\<open>{filter, arg}\<close> and \<^verbatim>\<open>{op, args}\<close>.\<close>

definition SelectorJson :: "string \<Rightarrow> string \<Rightarrow> ExpressionJson" where
  "SelectorJson s v = ExpressionJson (Some s) (Some v) None None None None"

definition FilterJson :: "string \<Rightarrow> ExpressionJson \<Rightarrow> ExpressionJson" where
  "FilterJson f a = ExpressionJson None None (Some f) (Some a) None None"

definition OperatorJson :: "string \<Rightarrow> ExpressionJson list \<Rightarrow> ExpressionJson" where
  "OperatorJson k as = ExpressionJson None None None None (Some k) (Some as)"

subsection \<open>JavaScript values\<close>

text \<open>\<^verbatim>\<open>!!s\<close> for a property of type string: false when it is undefined or empty.\<close>

definition truthy :: "string option \<Rightarrow> bool" where
  "truthy s = (case s of None \<Rightarrow> False | Some t \<Rightarrow> t \<noteq> [])"

text \<open>A property inside a template literal: \<^verbatim>\<open>${undefined}\<close> prints as \<^verbatim>\<open>undefined\<close>.\<close>

definition template :: "string option \<Rightarrow> string" where
  "template s = (case s of None \<Rightarrow> ''undefined'' | Some t \<Rightarrow> t)"

definition startsWith :: "string \<Rightarrow> string \<Rightarrow> bool" where
  "startsWith s p = (take (length p) s = p)"

text \<open>
  \<^verbatim>\<open>new Set(array)\<close>, as the sequence the set iterates in: every element once, at
  the place of its first occurrence.
\<close>

definition new_Set :: "'a list \<Rightarrow> 'a list" where
  "new_Set xs = foldl (\<lambda>acc x. if x \<in> set acc then acc else acc @ [x]) [] xs"

text \<open>\<^verbatim>\<open>array[i]\<close> of a property that may be undefined.\<close>

definition element :: "'a list option \<Rightarrow> nat \<Rightarrow> 'a option" where
  "element xs i =
     (case xs of None \<Rightarrow> None | Some ys \<Rightarrow> if i < length ys then Some (ys ! i) else None)"

abbreviation sq :: char where "sq \<equiv> CHR 0x27"
abbreviation dq :: char where "dq \<equiv> CHR 0x22"

subsection \<open>Errors\<close>

text \<open>
  Modelled from the spec: \<^verbatim>\<open>JsonFile.loadAndValidateAsync\<close> and
  \<^verbatim>\<open>FileSystem.isNotExistError\<close> of node-core-library are not under src/. The
  spec has JSON file input and schema validation yield a validated expression tree or a
  not-found signal; every other failure of the loader (a file that cannot be read, a
  JSON syntax error, a schema violation) is an error with a message.
\<close>

datatype load_error = NotExist | LoadFailure string

definition isNotExistError :: "load_error \<Rightarrow> bool" where
  "isNotExistError e = (case e of NotExist \<Rightarrow> True | LoadFailure m \<Rightarrow> False)"

text \<open>
  What an evaluation can throw: a \<^verbatim>\<open>SelectorError\<close> with its message, the
  \<^verbatim>\<open>TypeError\<close> of the runtime on reading a property of \<^verbatim>\<open>undefined\<close>, an
  error of the JSON loader, and whatever a scope parser that is not under src/ throws.
\<close>

datatype error =
  SelectorError string
  | TypeError
  | LoaderError load_error
  | ParserError string

subsection \<open>The session\<close>

datatype scope_parser =
  NamedProjectSelectorParser
  | GitChangedProjectSelectorParser
  | TagProjectSelectorParser
  | VersionPolicyProjectSelectorParser
  | JsonFileSelectorParser

text \<open>
  The collaborators of the evaluator that are not under src/ are fields of the
  session: the projects of the Rush configuration and its folder, the working directory
  and \<^verbatim>\<open>path.resolve\<close> of the runtime, the JSON loader, the \<^verbatim>\<open>evaluateSelectorAsync\<close>
  of the four parsers other than the JSON one (from the unscoped selector and the
  context; it returns projects, throws, or never settles, which is \<open>None\<close>), and the
  functions of \<^verbatim>\<open>Selection\<close>. A \<^verbatim>\<open>Set\<close> is the list it iterates in.
\<close>

record 'p session =
  projects :: "'p list"
  rushJsonFolder :: string
  cwd :: string
  path_resolve :: "string \<Rightarrow> string \<Rightarrow> string"
  loadAndValidateAsync :: "string \<Rightarrow> load_error + ExpressionJson"
  parserEvaluate :: "scope_parser \<Rightarrow> string option \<Rightarrow> string \<Rightarrow> (error + 'p list) option"
  Selection_expandAllDependencies :: "'p list \<Rightarrow> 'p list"
  Selection_expandAllConsumers :: "'p list \<Rightarrow> 'p list"
  Selection_intersection :: "'p list \<Rightarrow> 'p list \<Rightarrow> 'p list"
  Selection_union :: "'p list \<Rightarrow> 'p list \<Rightarrow> 'p list"

subsection \<open>SelectorExpressionJsonFile\<close>

definition loadAsync :: "'p session \<Rightarrow> string \<Rightarrow> load_error + ExpressionJson" where
  "loadAsync env jsonFilePath = loadAndValidateAsync env jsonFilePath"

definition tryLoadAsync :: "'p session \<Rightarrow> string \<Rightarrow> load_error + ExpressionJson option" where
  "tryLoadAsync env jsonFilePath =
     (case loadAsync env jsonFilePath of
        Inr json \<Rightarrow> Inr (Some json)
      | Inl e \<Rightarrow> if isNotExistError e then Inr None else Inl e)"

subsection \<open>JsonFileSelectorParser.getAbsolutePath\<close>

definition getAbsolutePath :: "'p session \<Rightarrow> string \<Rightarrow> string" where
  "getAbsolutePath env file =
     (if startsWith file ''.'' then path_resolve env (cwd env) file
      else path_resolve env (rushJsonFolder env) file)"

subsection \<open>RushProjectSelector\<close>

text \<open>The scopes the constructor registers, in its order.\<close>

definition scopes :: "(string \<times> scope_parser) list" where
  "scopes =
     [(''name'', NamedProjectSelectorParser),
      (''git'', GitChangedProjectSelectorParser),
      (''tag'', TagProjectSelectorParser),
      (''version-policy'', VersionPolicyProjectSelectorParser),
      (''json'', JsonFileSelectorParser)]"

text \<open>\<^verbatim>\<open>this._scopes.get(selector.scope)\<close>; no scope is registered under \<^verbatim>\<open>undefined\<close>.\<close>

definition scopes_get :: "string option \<Rightarrow> scope_parser option" where
  "scopes_get s = (case s of None \<Rightarrow> None | Some t \<Rightarrow> map_of scopes t)"

definition isSelector :: "ExpressionJson \<Rightarrow> bool" where
  "isSelector expr = truthy (scope_prop expr)"

definition isFilter :: "ExpressionJson \<Rightarrow> bool" where
  "isFilter expr = truthy (filter_prop expr)"

definition isOperator :: "ExpressionJson \<Rightarrow> bool" where
  "isOperator expr = truthy (op_prop expr)"

text \<open>
  An evaluation returns a list of projects, throws, or does not return: a value of
  \<open>(error + 'p list) option\<close>, with \<open>None\<close> for the evaluation that never settles.
  \<open>await_ok\<close> is \<^verbatim>\<open>await\<close> in an async function: the rest runs on the value of
  a promise that fulfils, and a rejection is the rejection of the whole.
\<close>

type_synonym 'p outcome = "(error + 'p list) option"

definition await_ok :: "'p outcome \<Rightarrow> ('p list \<Rightarrow> 'p outcome) \<Rightarrow> 'p outcome" where
  "await_ok m k =
     Option.bind m (\<lambda>r. case r of Inl e \<Rightarrow> Some (Inl e) | Inr x \<Rightarrow> k x)"

definition throw :: "error \<Rightarrow> 'p outcome" where
  "throw e = Some (Inl e)"

definition return_ok :: "'p list \<Rightarrow> 'p outcome" where
  "return_ok x = Some (Inr x)"

lemma await_ok_mono [partial_function_mono]:
  assumes "mono_option B" and "\<And>y. mono_option (\<lambda>f. C y f)"
  shows "mono_option (\<lambda>f. await_ok (B f) (\<lambda>y. C y f))"
  unfolding await_ok_def
  apply (rule bind_mono [OF assms(1)])
  subgoal for r by (cases r) (simp_all add: option.const_mono assms(2))
  done

text \<open>
  The methods call each other, so one recursive function runs them all, from the
  method and its arguments; the source's names are the definitions after it.
\<close>

datatype call =
  Call_selectExpression "ExpressionJson option" string
  | Call_evaluateSelector ExpressionJson string
  | Call_evaluateFilter ExpressionJson string
  | Call_evaluateOperator ExpressionJson string
  | Call_evaluateSelectorAsync scope_parser "string option" string

partial_function (option) run :: "'p session \<Rightarrow> call \<Rightarrow> (error + 'p list) option" where
  "run env c =
    (case c of
       Call_selectExpression e context \<Rightarrow>
         (case e of
            None \<Rightarrow> throw TypeError
          | Some expr \<Rightarrow>
              if isSelector expr then run env (Call_evaluateSelector expr context)
              else if isFilter expr then run env (Call_evaluateFilter expr context)
              else if isOperator expr then run env (Call_evaluateOperator expr context)
              else throw (SelectorError
                (''Invalid object encountered in selector expression in '' @ context @ ''.'')))
     | Call_evaluateSelector selector context \<Rightarrow>
         (case scopes_get (scope_prop selector) of
            None \<Rightarrow>
              throw (SelectorError
                (''Unknown selector scope '' @ [sq] @ template (scope_prop selector) @ [sq]
                 @ '' for value '' @ [sq] @ template (value_prop selector) @ [sq]
                 @ '' in '' @ context @ ''.''))
          | Some parser \<Rightarrow>
              await_ok (run env (Call_evaluateSelectorAsync parser (value_prop selector) context))
                (\<lambda>r. return_ok r))
     | Call_evaluateFilter expr context \<Rightarrow>
         (if filter_prop expr = Some ''to'' then
            await_ok (run env (Call_selectExpression (arg_prop expr) context))
              (\<lambda>arg. return_ok (Selection_expandAllDependencies env arg))
          else if filter_prop expr = Some ''from'' then
            await_ok (run env (Call_selectExpression (arg_prop expr) context))
              (\<lambda>arg. return_ok (Selection_expandAllDependencies env (Selection_expandAllConsumers env arg)))
          else if filter_prop expr = Some ''only'' then
            await_ok (run env (Call_selectExpression (arg_prop expr) context))
              (\<lambda>arg. return_ok arg)
          else
            throw (SelectorError
              (''Unknown filter '' @ [sq] @ template (filter_prop expr) @ [sq]
               @ '' encountered in selector expression in '' @ context @ ''.'')))
     | Call_evaluateOperator expr context \<Rightarrow>
         (if op_prop expr = Some ''not'' then
            await_ok (run env (Call_selectExpression (element (args_prop expr) 0) context))
              (\<lambda>result. return_ok (filter (\<lambda>p. p \<notin> set result) (projects env)))
          else if op_prop expr = Some ''and'' then
            await_ok (run env (Call_selectExpression (element (args_prop expr) 0) context))
              (\<lambda>a. await_ok (run env (Call_selectExpression (element (args_prop expr) 1) context))
                (\<lambda>b. return_ok (Selection_intersection env (new_Set a) (new_Set b))))
          else if op_prop expr = Some ''or'' then
            await_ok (run env (Call_selectExpression (element (args_prop expr) 0) context))
              (\<lambda>a. await_ok (run env (Call_selectExpression (element (args_prop expr) 1) context))
                (\<lambda>b. return_ok (Selection_union env (new_Set a) (new_Set b))))
          else
            throw (SelectorError
              (''Unknown operator '' @ [sq] @ template (op_prop expr) @ [sq]
               @ '' in selector expression in '' @ context @ ''.'')))
     | Call_evaluateSelectorAsync parser unscopedSelector context \<Rightarrow>
         (if parser = JsonFileSelectorParser then
            (case unscopedSelector of
               None \<Rightarrow> throw TypeError
             | Some file \<Rightarrow>
                 (case tryLoadAsync env (getAbsolutePath env file) of
                    Inl e \<Rightarrow> throw (LoaderError e)
                  | Inr None \<Rightarrow>
                      throw (SelectorError
                        (''Unable to find JSON file at '' @ [dq] @ getAbsolutePath env file @ [dq]
                         @ '' in '' @ context @ ''.''))
                  | Inr (Some expr) \<Rightarrow>
                      run env (Call_selectExpression (Some expr)
                        (''JSON file '' @ file @ '' in '' @ context))))
          else parserEvaluate env parser unscopedSelector context))"


text \<open>
  The methods by their names. \<open>selectExpression\<close> takes the expression as the caller
  passes it, \<open>Some\<close> of an object or \<^verbatim>\<open>undefined\<close>.
\<close>

definition selectExpression :: "'p session \<Rightarrow> ExpressionJson option \<Rightarrow> string \<Rightarrow> 'p outcome" where
  "selectExpression env expr context = run env (Call_selectExpression expr context)"

definition evaluateSelector :: "'p session \<Rightarrow> ExpressionJson \<Rightarrow> string \<Rightarrow> 'p outcome" where
  "evaluateSelector env selector context = run env (Call_evaluateSelector selector context)"

definition evaluateFilter :: "'p session \<Rightarrow> ExpressionJson \<Rightarrow> string \<Rightarrow> 'p outcome" where
  "evaluateFilter env expr context = run env (Call_evaluateFilter expr context)"

definition evaluateOperator :: "'p session \<Rightarrow> ExpressionJson \<Rightarrow> string \<Rightarrow> 'p outcome" where
  "evaluateOperator env expr context = run env (Call_evaluateOperator expr context)"

definition evaluateSelectorAsync ::
    "'p session \<Rightarrow> scope_parser \<Rightarrow> string option \<Rightarrow> string \<Rightarrow> 'p outcome" where
  "evaluateSelectorAsync env parser unscopedSelector context =
     run env (Call_evaluateSelectorAsync parser unscopedSelector context)"

text \<open>\<^verbatim>\<open>String.prototype.includes\<close>.\<close>

fun str_includes :: "string \<Rightarrow> string \<Rightarrow> bool" where
  "str_includes [] t = (t = [])"
| "str_includes (x # xs) t = (startsWith (x # xs) t \<or> str_includes xs t)"

declare run.simps [code]

section \<open>Chains of first sub-evaluations\<close>

text \<open>
  The evaluation of an expression starts with the evaluation of another one: the
  expression of the file, for a selector of the scope \<^verbatim>\<open>json\<close> whose file loads; the
  \<^verbatim>\<open>arg\<close> of a filter \<^verbatim>\<open>to\<close>, \<^verbatim>\<open>from\<close> or \<^verbatim>\<open>only\<close>; \<^verbatim>\<open>args[0]\<close> of an
  operator \<^verbatim>\<open>not\<close>, \<^verbatim>\<open>and\<close> or \<^verbatim>\<open>or\<close>. \<open>first_sub\<close> is that expression,
  \<open>first_sub_n n\<close> the one reached after \<open>n\<close> such steps.
\<close>

definition first_sub :: "'p session \<Rightarrow> ExpressionJson \<Rightarrow> ExpressionJson option" where
  "first_sub env expr =
     (if isSelector expr then
        (if scopes_get (scope_prop expr) = Some JsonFileSelectorParser then
           (case value_prop expr of
              None \<Rightarrow> None
            | Some file \<Rightarrow>
                (case tryLoadAsync env (getAbsolutePath env file) of
                   Inl e \<Rightarrow> None
                 | Inr loaded \<Rightarrow> loaded))
         else None)
      else if isFilter expr then
        (if filter_prop expr = Some ''to'' \<or> filter_prop expr = Some ''from''
            \<or> filter_prop expr = Some ''only''
         then arg_prop expr else None)
      else if isOperator expr then
        (if op_prop expr = Some ''not'' \<or> op_prop expr = Some ''and''
            \<or> op_prop expr = Some ''or''
         then element (args_prop expr) 0 else None)
      else None)"

fun first_sub_n :: "nat \<Rightarrow> 'p session \<Rightarrow> ExpressionJson \<Rightarrow> ExpressionJson option" where
  "first_sub_n 0 env expr = Some expr"
| "first_sub_n (Suc n) env expr =
     (case first_sub env expr of None \<Rightarrow> None | Some sub \<Rightarrow> first_sub_n n env sub)"

text \<open>
  A chain that has no end, and the calls of the methods that stand on one: the
  evaluation of such a call awaits another such call first.
\<close>

definition unending :: "'p session \<Rightarrow> ExpressionJson \<Rightarrow> bool" where
  "unending env expr = (\<forall>n. first_sub_n n env expr \<noteq> None)"

fun doomed :: "'p session \<Rightarrow> call \<Rightarrow> bool" where
  "doomed env (Call_selectExpression e context) = (\<exists>x. e = Some x \<and> unending env x)"
| "doomed env (Call_evaluateSelector x context) = (isSelector x \<and> unending env x)"
| "doomed env (Call_evaluateFilter x context) =
     (\<not> isSelector x \<and> isFilter x \<and> unending env x)"
| "doomed env (Call_evaluateOperator x context) =
     (\<not> isSelector x \<and> \<not> isFilter x \<and> isOperator x \<and> unending env x)"
| "doomed env (Call_evaluateSelectorAsync parser v context) =
     (parser = JsonFileSelectorParser \<and>
      (\<exists>file loaded. v = Some file
         \<and> tryLoadAsync env (getAbsolutePath env file) = Inr (Some loaded)
         \<and> unending env loaded))"

section \<open>Sessions that stay among the projects\<close>

text \<open>
  The parsers and the functions of \<^verbatim>\<open>Selection\<close> return projects of the Rush
  configuration when they are given such.
\<close>

definition within_projects :: "'p session \<Rightarrow> bool" where
  "within_projects env \<longleftrightarrow>
     (\<forall>parser v ctx r. parserEvaluate env parser v ctx = return_ok r \<longrightarrow>
        set r \<subseteq> set (projects env))
     \<and> (\<forall>xs. set xs \<subseteq> set (projects env) \<longrightarrow>
           set (Selection_expandAllDependencies env xs) \<subseteq> set (projects env))
     \<and> (\<forall>xs. set xs \<subseteq> set (projects env) \<longrightarrow>
           set (Selection_expandAllConsumers env xs) \<subseteq> set (projects env))
     \<and> (\<forall>xs ys. set xs \<subseteq> set (projects env) \<longrightarrow> set ys \<subseteq> set (projects env) \<longrightarrow>
           set (Selection_intersection env xs ys) \<subseteq> set (projects env))
     \<and> (\<forall>xs ys. set xs \<subseteq> set (projects env) \<longrightarrow> set ys \<subseteq> set (projects env) \<longrightarrow>
           set (Selection_union env xs ys) \<subseteq> set (projects env))"

section \<open>A session to evaluate on\<close>

text \<open>
  Three projects, \<^verbatim>\<open>a\<close> depending on \<^verbatim>\<open>b\<close> and \<^verbatim>\<open>b\<close> on \<^verbatim>\<open>c\<close>; the tags
  \<^verbatim>\<open>frontend\<close> on \<^verbatim>\<open>a\<close> and \<^verbatim>\<open>b\<close>, \<^verbatim>\<open>backend\<close> on \<^verbatim>\<open>c\<close>; five JSON files
  under the folder \<^verbatim>\<open>/repo\<close>, one of them invalid, two of them including themselves.
\<close>

definition demo_dependencies :: "string \<Rightarrow> string list" where
  "demo_dependencies p = (if p = ''a'' then [''b''] else if p = ''b'' then [''c''] else [])"

definition demo_consumers :: "string \<Rightarrow> string list" where
  "demo_consumers p = (if p = ''c'' then [''b''] else if p = ''b'' then [''a''] else [])"

definition demo_closure :: "(string \<Rightarrow> string list) \<Rightarrow> string list \<Rightarrow> string list" where
  "demo_closure next xs =
     new_Set (xs @ concat (map next xs) @ concat (map next (concat (map next xs))))"

definition demo_resolve :: "string \<Rightarrow> string \<Rightarrow> string" where
  "demo_resolve base file =
     (if startsWith file ''/'' then file
      else if startsWith file ''./'' then base @ ''/'' @ drop 2 file
      else base @ ''/'' @ file)"

definition demo_files :: "string \<Rightarrow> load_error + ExpressionJson" where
  "demo_files p =
     (if p = ''/repo/front.json'' then Inr (SelectorJson ''name'' ''a'')
      else if p = ''/repo/apps/a/local.json'' then Inr (SelectorJson ''name'' ''b'')
      else if p = ''/repo/self.json'' then Inr (SelectorJson ''json'' ''self.json'')
      else if p = ''/repo/loop.json'' then
        Inr (OperatorJson ''or'' [SelectorJson ''json'' ''loop.json'', SelectorJson ''name'' ''a''])
      else if p = ''/repo/broken.json'' then Inl (LoadFailure ''JSON validation failed'')
      else Inl NotExist)"

definition demo_parsers ::
    "scope_parser \<Rightarrow> string option \<Rightarrow> string \<Rightarrow> (error + string list) option" where
  "demo_parsers parser unscopedSelector context =
     (if parser = NamedProjectSelectorParser then
        (if template unscopedSelector \<in> set [''a'', ''b'', ''c'']
         then return_ok [template unscopedSelector]
         else throw (ParserError (''No project named '' @ template unscopedSelector)))
      else if parser = TagProjectSelectorParser then
        (if unscopedSelector = Some ''frontend'' then return_ok [''a'', ''b'']
         else if unscopedSelector = Some ''backend'' then return_ok [''c'']
         else return_ok [])
      else return_ok [])"

definition demo :: "string session" where
  "demo = \<lparr>
     projects = [''a'', ''b'', ''c''],
     rushJsonFolder = ''/repo'',
     cwd = ''/repo/apps/a'',
     path_resolve = demo_resolve,
     loadAndValidateAsync = demo_files,
     parserEvaluate = demo_parsers,
     Selection_expandAllDependencies = demo_closure demo_dependencies,
     Selection_expandAllConsumers = demo_closure demo_consumers,
     Selection_intersection = (\<lambda>a b. filter (\<lambda>x. x \<in> set b) a),
     Selection_union = (\<lambda>a b. new_Set (a @ b))
   \<rparr>"

section \<open>The methods, as the source writes them\<close>

lemma selectExpression_eq:
  "selectExpression env e context =
     (case e of
        None \<Rightarrow> throw TypeError
      | Some expr \<Rightarrow>
          if isSelector expr then evaluateSelector env expr context
          else if isFilter expr then evaluateFilter env expr context
          else if isOperator expr then evaluateOperator env expr context
          else throw (SelectorError
            (''Invalid object encountered in selector expression in '' @ context @ ''.'')))"
  unfolding selectExpression_def evaluateSelector_def evaluateFilter_def evaluateOperator_def
  by (subst run.simps) simp

lemma evaluateSelector_eq:
  "evaluateSelector env selector context =
     (case scopes_get (scope_prop selector) of
        None \<Rightarrow>
          throw (SelectorError
            (''Unknown selector scope '' @ [sq] @ template (scope_prop selector) @ [sq]
             @ '' for value '' @ [sq] @ template (value_prop selector) @ [sq]
             @ '' in '' @ context @ ''.''))
      | Some parser \<Rightarrow>
          await_ok (evaluateSelectorAsync env parser (value_prop selector) context)
            (\<lambda>r. return_ok r))"
  unfolding evaluateSelector_def evaluateSelectorAsync_def
  by (subst run.simps) simp

lemma evaluateFilter_eq:
  "evaluateFilter env expr context =
     (if filter_prop expr = Some ''to'' then
        await_ok (selectExpression env (arg_prop expr) context)
          (\<lambda>arg. return_ok (Selection_expandAllDependencies env arg))
      else if filter_prop expr = Some ''from'' then
        await_ok (selectExpression env (arg_prop expr) context)
          (\<lambda>arg. return_ok
             (Selection_expandAllDependencies env (Selection_expandAllConsumers env arg)))
      else if filter_prop expr = Some ''only'' then
        await_ok (selectExpression env (arg_prop expr) context) (\<lambda>arg. return_ok arg)
      else
        throw (SelectorError
          (''Unknown filter '' @ [sq] @ template (filter_prop expr) @ [sq]
           @ '' encountered in selector expression in '' @ context @ ''.'')))"
  unfolding evaluateFilter_def selectExpression_def
  by (subst run.simps) simp

lemma evaluateOperator_eq:
  "evaluateOperator env expr context =
     (if op_prop expr = Some ''not'' then
        await_ok (selectExpression env (element (args_prop expr) 0) context)
          (\<lambda>result. return_ok (filter (\<lambda>p. p \<notin> set result) (projects env)))
      else if op_prop expr = Some ''and'' then
        await_ok (selectExpression env (element (args_prop expr) 0) context)
          (\<lambda>a. await_ok (selectExpression env (element (args_prop expr) 1) context)
            (\<lambda>b. return_ok (Selection_intersection env (new_Set a) (new_Set b))))
      else if op_prop expr = Some ''or'' then
        await_ok (selectExpression env (element (args_prop expr) 0) context)
          (\<lambda>a. await_ok (selectExpression env (element (args_prop expr) 1) context)
            (\<lambda>b. return_ok (Selection_union env (new_Set a) (new_Set b))))
      else
        throw (SelectorError
          (''Unknown operator '' @ [sq] @ template (op_prop expr) @ [sq]
           @ '' in selector expression in '' @ context @ ''.'')))"
  unfolding evaluateOperator_def selectExpression_def
  by (subst run.simps) simp

lemma evaluateSelectorAsync_eq:
  "evaluateSelectorAsync env parser unscopedSelector context =
     (if parser = JsonFileSelectorParser then
        (case unscopedSelector of
           None \<Rightarrow> throw TypeError
         | Some file \<Rightarrow>
             (case tryLoadAsync env (getAbsolutePath env file) of
                Inl e \<Rightarrow> throw (LoaderError e)
              | Inr None \<Rightarrow>
                  throw (SelectorError
                    (''Unable to find JSON file at '' @ [dq] @ getAbsolutePath env file @ [dq]
                     @ '' in '' @ context @ ''.''))
              | Inr (Some expr) \<Rightarrow>
                  selectExpression env (Some expr)
                    (''JSON file '' @ file @ '' in '' @ context)))
      else parserEvaluate env parser unscopedSelector context)"
  unfolding evaluateSelectorAsync_def selectExpression_def
  by (subst run.simps) simp

section \<open>Outcomes, strings and literals\<close>

lemma await_ok_None [simp]: "await_ok None k = None"
  by (simp add: await_ok_def)

lemma await_ok_throw [simp]: "await_ok (throw e) k = throw e"
  by (simp add: await_ok_def throw_def)

lemma await_ok_return [simp]: "await_ok (return_ok x) k = k x"
  by (simp add: await_ok_def return_ok_def)

lemma await_ok_return_ok [simp]: "await_ok m return_ok = m"
  by (cases m) (auto simp: await_ok_def return_ok_def split: sum.split)

lemma await_ok_return_ok' [simp]: "await_ok m (\<lambda>r. return_ok r) = m"
  by (cases m) (auto simp: await_ok_def return_ok_def split: sum.split)

lemma throw_neq_return [simp]: "throw e \<noteq> return_ok x" "return_ok x \<noteq> throw e"
  "throw e \<noteq> None" "return_ok x \<noteq> None" "None \<noteq> throw e" "None \<noteq> return_ok x"
  by (simp_all add: throw_def return_ok_def)

lemma throw_inj [simp]: "throw e = throw e' \<longleftrightarrow> e = e'"
  by (simp add: throw_def)

lemma return_ok_inj [simp]: "return_ok x = return_ok y \<longleftrightarrow> x = y"
  by (simp add: return_ok_def)

lemma startsWith_append: "startsWith (t @ post) t"
  by (simp add: startsWith_def)

lemma startsWith_str_includes: "startsWith s t \<Longrightarrow> str_includes s t"
  by (cases s) (auto simp: startsWith_def)

lemma str_includes_append: "str_includes (pre @ t @ post) t"
proof (induction pre)
  case Nil
  show ?case by (simp add: startsWith_str_includes startsWith_append)
next
  case (Cons c pre)
  then show ?case by simp
qed

lemma literal_simps [simp]:
  "scope_prop (SelectorJson s v) = Some s" "value_prop (SelectorJson s v) = Some v"
  "isSelector (SelectorJson s v) \<longleftrightarrow> s \<noteq> []"
  "\<not> isSelector (FilterJson f a)" "isFilter (FilterJson f a) \<longleftrightarrow> f \<noteq> []"
  "filter_prop (FilterJson f a) = Some f" "arg_prop (FilterJson f a) = Some a"
  "\<not> isSelector (OperatorJson k as)" "\<not> isFilter (OperatorJson k as)"
  "isOperator (OperatorJson k as) \<longleftrightarrow> k \<noteq> []"
  "op_prop (OperatorJson k as) = Some k" "args_prop (OperatorJson k as) = Some as"
  by (simp_all add: SelectorJson_def FilterJson_def OperatorJson_def isSelector_def isFilter_def
      isOperator_def truthy_def)

lemma element_simps [simp]:
  "element (Some (x # xs)) 0 = Some x"
  "element (Some (x # y # xs)) 1 = Some y"
  "element (Some (x # y # xs)) (Suc 0) = Some y"
  "element None i = None" "element (Some []) i = None"
  by (simp_all add: element_def)

lemma scopes_get_registered:
  "scopes_get (Some s) \<noteq> None \<longleftrightarrow> s \<in> {''name'', ''git'', ''tag'', ''version-policy'', ''json''}"
  by (simp add: scopes_get_def scopes_def)

lemma json_selector_eq:
  "selectExpression env (Some (SelectorJson ''json'' file)) context =
     evaluateSelectorAsync env JsonFileSelectorParser (Some file) context"
  by (subst selectExpression_eq) (simp add: evaluateSelector_eq scopes_get_def scopes_def)

lemma evaluateSelector_reads:
  "scope_prop a = scope_prop b \<Longrightarrow> value_prop a = value_prop b \<Longrightarrow>
   evaluateSelector env a context = evaluateSelector env b context"
  unfolding evaluateSelector_eq by (simp split: option.split)

lemma await_ok_SomeD: "await_ok m k = Some y \<Longrightarrow> \<exists>r. m = Some r"
  by (cases m) (auto simp: await_ok_def)

section \<open>Evaluation on the session\<close>

lemmas demo_eval =
  selectExpression_eq evaluateSelector_eq evaluateFilter_eq evaluateOperator_eq
  evaluateSelectorAsync_eq demo_def demo_dependencies_def demo_consumers_def demo_closure_def
  demo_resolve_def demo_files_def demo_parsers_def SelectorJson_def FilterJson_def
  OperatorJson_def isSelector_def isFilter_def isOperator_def truthy_def template_def
  scopes_get_def scopes_def new_Set_def element_def getAbsolutePath_def tryLoadAsync_def
  loadAsync_def isNotExistError_def startsWith_def await_ok_def throw_def return_ok_def

lemma demo_name:
  "selectExpression demo (Some (SelectorJson ''name'' ''a'')) ''cli'' = return_ok [''a'']"
  "selectExpression demo (Some (SelectorJson ''name'' ''c'')) ''cli'' = return_ok [''c'']"
  by (simp_all add: demo_eval)

lemma demo_tag:
  "selectExpression demo (Some (SelectorJson ''tag'' ''frontend'')) ''cli'' = return_ok [''a'', ''b'']"
  "selectExpression demo (Some (SelectorJson ''tag'' ''none'')) ''cli'' = return_ok []"
  by (simp_all add: demo_eval)

lemmas first_sub_eval = first_sub_def demo_def demo_resolve_def demo_files_def SelectorJson_def
  FilterJson_def OperatorJson_def isSelector_def isFilter_def isOperator_def truthy_def
  scopes_get_def scopes_def element_def getAbsolutePath_def tryLoadAsync_def loadAsync_def
  isNotExistError_def startsWith_def

section \<open>An unending chain never settles\<close>

lemma first_sub_n_add:
  "first_sub_n (a + b) env e = Option.bind (first_sub_n a env e) (first_sub_n b env)"
  by (induction a arbitrary: e) (auto split: option.split)

lemma first_sub_n_le:
  "first_sub_n n env e \<noteq> None \<Longrightarrow> m \<le> n \<Longrightarrow> first_sub_n m env e \<noteq> None"
  using first_sub_n_add [of m "n - m" env e] by (cases "first_sub_n m env e") auto

lemma cycle_unending:
  assumes "0 < n" and "first_sub_n n env e = Some e"
  shows "unending env e"
proof -
  have "first_sub_n m env e \<noteq> None" for m
  proof (induction m rule: less_induct)
    case (less m)
    show ?case
    proof (cases "m \<le> n")
      case True
      with assms(2) first_sub_n_le [of n env e m] show ?thesis by simp
    next
      case False
      then have "m = n + (m - n)" and "m - n < m" using assms(1) by simp_all
      then have "first_sub_n m env e = first_sub_n (m - n) env e"
        using first_sub_n_add [of n "m - n" env e] assms(2) by simp
      with less.IH [of "m - n"] \<open>m - n < m\<close> show ?thesis by simp
    qed
  qed
  then show ?thesis by (simp add: unending_def)
qed

lemma unending_step:
  assumes "unending env e"
  obtains sub where "first_sub env e = Some sub" and "unending env sub"
proof -
  from assms have "first_sub_n (Suc 0) env e \<noteq> None" unfolding unending_def by blast
  then obtain sub where s: "first_sub env e = Some sub" by (auto split: option.splits)
  have "first_sub_n n env sub \<noteq> None" for n
    using assms s unfolding unending_def by (metis first_sub_n.simps(2) option.simps(5))
  then have "unending env sub" by (simp add: unending_def)
  with s that show ?thesis by blast
qed

lemma run_not_doomed:
  assumes "run env c = Some y"
  shows "\<not> doomed env c"
proof (induct rule: run.raw_induct [OF _ assms])
  case (1 run' env c y)
  show ?case
  proof
    assume d: "doomed env c"
    show False
    proof (cases c)
      case (Call_selectExpression e ctx)
      with d obtain x where x: "e = Some x" "unending env x" by auto
      from x(2) obtain sub where sub: "first_sub env x = Some sub" by (rule unending_step)
      then have cls: "isSelector x \<or> isFilter x \<or> isOperator x"
        by (auto simp: first_sub_def split: if_splits)
      show False
        using 1(2) x cls unfolding Call_selectExpression
        by (auto split: if_splits dest!: 1(1))
    next
      case (Call_evaluateSelector x ctx)
      with d have x: "isSelector x" "unending env x" by auto
      from x(2) obtain sub where sub: "first_sub env x = Some sub" "unending env sub"
        by (rule unending_step)
      from sub(1) x(1) obtain fl where f: "scopes_get (scope_prop x) = Some JsonFileSelectorParser"
        "value_prop x = Some fl" "tryLoadAsync env (getAbsolutePath env fl) = Inr (Some sub)"
        by (auto simp: first_sub_def split: if_splits option.splits sum.splits)
      from 1(2) f obtain r where
        "run' env (Call_evaluateSelectorAsync JsonFileSelectorParser (Some fl) ctx) = Some r"
        unfolding Call_evaluateSelector by (auto dest!: await_ok_SomeD)
      from 1(1) [OF this] f sub(2) show False by auto
    next
      case (Call_evaluateFilter x ctx)
      with d have x: "\<not> isSelector x" "isFilter x" "unending env x" by auto
      from x(3) obtain sub where sub: "first_sub env x = Some sub" "unending env sub"
        by (rule unending_step)
      from sub(1) x(1,2) have f: "filter_prop x = Some ''to'' \<or> filter_prop x = Some ''from''
            \<or> filter_prop x = Some ''only''" "arg_prop x = Some sub"
        by (auto simp: first_sub_def split: if_splits)
      from 1(2) f obtain r where
        "run' env (Call_selectExpression (Some sub) ctx) = Some r"
        unfolding Call_evaluateFilter by (auto dest!: await_ok_SomeD split: if_splits)
      from 1(1) [OF this] sub(2) show False by auto
    next
      case (Call_evaluateOperator x ctx)
      with d have x: "\<not> isSelector x" "\<not> isFilter x" "isOperator x" "unending env x" by auto
      from x(4) obtain sub where sub: "first_sub env x = Some sub" "unending env sub"
        by (rule unending_step)
      from sub(1) x(1,2,3) have f: "op_prop x = Some ''not'' \<or> op_prop x = Some ''and''
            \<or> op_prop x = Some ''or''" "element (args_prop x) 0 = Some sub"
        by (auto simp: first_sub_def split: if_splits)
      from 1(2) f obtain r where
        "run' env (Call_selectExpression (Some sub) ctx) = Some r"
        unfolding Call_evaluateOperator by (auto dest!: await_ok_SomeD split: if_splits)
      from 1(1) [OF this] sub(2) show False by auto
    next
      case (Call_evaluateSelectorAsync parser v ctx)
      with d obtain fl loaded where f: "parser = JsonFileSelectorParser" "v = Some fl"
        "tryLoadAsync env (getAbsolutePath env fl) = Inr (Some loaded)" "unending env loaded"
        by auto
      from 1(2) f have
        "run' env (Call_selectExpression (Some loaded) (''JSON file '' @ fl @ '' in '' @ ctx)) = Some y"
        unfolding Call_evaluateSelectorAsync by simp
      from 1(1) [OF this] f(4) show False by auto
    qed
  qed
qed

lemma unending_never_settles:
  assumes "unending env expr"
  shows "selectExpression env (Some expr) context = None"
proof (rule ccontr)
  assume "selectExpression env (Some expr) context \<noteq> None"
  then obtain y where "run env (Call_selectExpression (Some expr) context) = Some y"
    by (auto simp: selectExpression_def)
  then have "\<not> doomed env (Call_selectExpression (Some expr) context)"
    by (rule run_not_doomed)
  with assms show False by simp
qed

section \<open>What an evaluation returns stays among the projects\<close>

lemma set_new_Set_aux:
  "set (foldl (\<lambda>acc x. if x \<in> set acc then acc else acc @ [x]) acc xs) = set acc \<union> set xs"
  by (induction xs arbitrary: acc) auto

lemma set_new_Set [simp]: "set (new_Set xs) = set xs"
  by (simp add: new_Set_def set_new_Set_aux)

lemma await_ok_eq_return:
  "await_ok m k = Some (Inr r) \<Longrightarrow> \<exists>x. m = Some (Inr x) \<and> k x = Some (Inr r)"
  by (cases m) (auto simp: await_ok_def split: sum.splits)

lemma within_projectsD:
  assumes "within_projects env"
  shows "parserEvaluate env parser v ctx = return_ok r \<Longrightarrow> set r \<subseteq> set (projects env)"
    and "set xs \<subseteq> set (projects env) \<Longrightarrow>
         set (Selection_expandAllDependencies env xs) \<subseteq> set (projects env)"
    and "set xs \<subseteq> set (projects env) \<Longrightarrow>
         set (Selection_expandAllConsumers env xs) \<subseteq> set (projects env)"
    and "set xs \<subseteq> set (projects env) \<Longrightarrow> set ys \<subseteq> set (projects env) \<Longrightarrow>
         set (Selection_intersection env xs ys) \<subseteq> set (projects env)"
    and "set xs \<subseteq> set (projects env) \<Longrightarrow> set ys \<subseteq> set (projects env) \<Longrightarrow>
         set (Selection_union env xs ys) \<subseteq> set (projects env)"
  using assms unfolding within_projects_def by simp_all

lemma run_within_projects:
  assumes "run env c = Some y" and "within_projects env" and "y = Inr r"
  shows "set r \<subseteq> set (projects env)"
  using assms(2,3)
proof (induct arbitrary: r rule: run.raw_induct [OF _ assms(1)])
  case (1 run' env c y)
  note IH = 1(1) and body = 1(2) and wp = 1(3) and y = 1(4)
  show ?case
  proof (cases c)
    case (Call_selectExpression e ctx)
    with body y obtain c' where "run' env c' = Some (Inr r)"
      by (auto simp: throw_def split: option.splits if_splits)
    from IH [OF this wp refl] show ?thesis .
  next
    case (Call_evaluateSelector x ctx)
    with body y obtain c' where "run' env c' = Some (Inr r)"
      by (auto simp: throw_def return_ok_def split: option.splits dest!: await_ok_eq_return)
    from IH [OF this wp refl] show ?thesis .
  next
    case (Call_evaluateFilter x ctx)
    with body y obtain arg where a: "run' env (Call_selectExpression (arg_prop x) ctx) = Some (Inr arg)"
      and r: "r = Selection_expandAllDependencies env arg
        \<or> r = Selection_expandAllDependencies env (Selection_expandAllConsumers env arg)
        \<or> r = arg"
      by (auto simp: throw_def return_ok_def split: if_splits dest!: await_ok_eq_return)
    from IH [OF a wp refl] have "set arg \<subseteq> set (projects env)" .
    with r within_projectsD(2,3) [OF wp] show ?thesis by metis
  next
    case (Call_evaluateOperator x ctx)
    from wp have n: "set (filter (\<lambda>p. p \<notin> set result) (projects env)) \<subseteq> set (projects env)"
      for result :: "'a list"
      by auto
    from body y Call_evaluateOperator consider
      (neg) result where "r = filter (\<lambda>p. p \<notin> set result) (projects env)"
      | (bin) a b where "run' env (Call_selectExpression (element (args_prop x) 0) ctx) = Some (Inr a)"
          "run' env (Call_selectExpression (element (args_prop x) 1) ctx) = Some (Inr b)"
          "r = Selection_intersection env (new_Set a) (new_Set b)
           \<or> r = Selection_union env (new_Set a) (new_Set b)"
      by (auto simp: throw_def return_ok_def split: if_splits dest!: await_ok_eq_return)
    then show ?thesis
    proof cases
      case neg
      then show ?thesis by auto
    next
      case bin
      from IH [OF bin(1) wp refl] IH [OF bin(2) wp refl]
      have "set (new_Set a) \<subseteq> set (projects env)" "set (new_Set b) \<subseteq> set (projects env)"
        by simp_all
      with bin(3) within_projectsD(4,5) [OF wp] show ?thesis by metis
    qed
  next
    case (Call_evaluateSelectorAsync parser v ctx)
    with body y consider
      (json) c' where "run' env c' = Some (Inr r)"
      | (other) "parserEvaluate env parser v ctx = return_ok r"
      by (auto simp: throw_def return_ok_def split: if_splits option.splits sum.splits)
    then show ?thesis
    proof cases
      case json
      from IH [OF this wp refl] show ?thesis .
    next
      case other
      with within_projectsD(1) [OF wp] show ?thesis by blast
    qed
  qed
qed

lemma selectExpression_within_projects:
  "within_projects env \<Longrightarrow> selectExpression env e context = return_ok r \<Longrightarrow>
   set r \<subseteq> set (projects env)"
  using run_within_projects [of env "Call_selectExpression e context" "Inr r" r]
  by (simp add: selectExpression_def return_ok_def)

lemma demo_closure_subset:
  assumes "\<And>p. set (next p) \<subseteq> S" and "set xs \<subseteq> S"
  shows "set (demo_closure next xs) \<subseteq> S"
proof -
  have h: "set (concat (map next ys)) \<subseteq> S" for ys
    using assms(1) by auto
  from h [of xs] h [of "concat (map next xs)"] assms(2) show ?thesis
    unfolding demo_closure_def set_new_Set set_append by blast
qed

lemma demo_parsers_subset:
  assumes "demo_parsers parser v ctx = return_ok r"
  shows "set r \<subseteq> {''a'', ''b'', ''c''}"
proof (cases "parser = NamedProjectSelectorParser")
  case True
  with assms show ?thesis
    by (auto simp: demo_parsers_def return_ok_def throw_def split: if_splits)
next
  case False
  with assms show ?thesis
    by (auto simp: demo_parsers_def return_ok_def throw_def split: if_splits)
qed

lemma within_projects_demo: "within_projects demo"
proof -
  have d: "set (demo_dependencies p) \<subseteq> {''a'', ''b'', ''c''}" for p
    by (auto simp: demo_dependencies_def)
  have c: "set (demo_consumers p) \<subseteq> {''a'', ''b'', ''c''}" for p
    by (auto simp: demo_consumers_def)
  have pr: "set (projects demo) = {''a'', ''b'', ''c''}"
    by (simp add: demo_def)
  have 1: "parserEvaluate demo parser v ctx = return_ok r \<Longrightarrow> set r \<subseteq> set (projects demo)"
    for parser v ctx r
    unfolding pr using demo_parsers_subset [of parser v ctx r] by (simp add: demo_def)
  have 2: "set xs \<subseteq> set (projects demo) \<Longrightarrow>
      set (Selection_expandAllDependencies demo xs) \<subseteq> set (projects demo)" for xs
    unfolding pr using demo_closure_subset [of demo_dependencies _ xs, OF d] by (simp add: demo_def)
  have 3: "set xs \<subseteq> set (projects demo) \<Longrightarrow>
      set (Selection_expandAllConsumers demo xs) \<subseteq> set (projects demo)" for xs
    unfolding pr using demo_closure_subset [of demo_consumers _ xs, OF c] by (simp add: demo_def)
  have 4: "set xs \<subseteq> set (projects demo) \<Longrightarrow>
      set (Selection_intersection demo xs ys) \<subseteq> set (projects demo)" for xs ys
    by (auto simp: demo_def)
  have 5: "set xs \<subseteq> set (projects demo) \<Longrightarrow> set ys \<subseteq> set (projects demo) \<Longrightarrow>
      set (Selection_union demo xs ys) \<subseteq> set (projects demo)" for xs ys
    unfolding pr by (simp add: demo_def)
  from 1 2 3 4 5 show ?thesis
    unfolding within_projects_def by simp
qed

section \<open>The claims\<close>

subsection \<open>C1\<close>

text \<open>
  Claim C1, as the code has it. \<^verbatim>\<open>selectExpression\<close> and \<^verbatim>\<open>JsonFileSelectorParser\<close>
  keep no record of the files being loaded, and there is no cyclic-inclusion error. When
  the chain of first sub-evaluations of an expression (the file of a \<^verbatim>\<open>json\<close> selector,
  the \<^verbatim>\<open>arg\<close> of a filter, \<^verbatim>\<open>args[0]\<close> of an operator) leads back to the expression
  after one step or more, as it does for a file whose expression is a \<^verbatim>\<open>json\<close> selector
  of that file, the evaluation never settles: it returns no projects and throws no error,
  whatever the context.
\<close>

theorem cyclic_inclusion_never_settles:
  assumes "0 < n" and "first_sub_n n env expr = Some expr"
  shows "selectExpression env (Some expr) context = None"
proof -
  from assms have "unending env expr"
    by (rule cycle_unending)
  then show ?thesis
    by (rule unending_never_settles)
qed

text \<open>C1 at work on the session above.\<close>

theorem cyclic_inclusion_never_settles_witness:
  "first_sub_n 1 demo (SelectorJson ''json'' ''self.json'') = Some (SelectorJson ''json'' ''self.json'')
   \<and> selectExpression demo (Some (SelectorJson ''json'' ''self.json'')) ''cli'' = None"
proof -
  have h: "first_sub_n 1 demo (SelectorJson ''json'' ''self.json'')
      = Some (SelectorJson ''json'' ''self.json'')"
    by (simp add: first_sub_eval)
  have p: "0 < (1::nat)" by simp
  from cyclic_inclusion_never_settles [OF p h, of "''cli''"] h show ?thesis by simp
qed

text \<open>
  Claim C1 as stated fails on the file \<^verbatim>\<open>/repo/loop.json\<close>, whose expression is an
  \<^verbatim>\<open>or\<close> of the \<^verbatim>\<open>json\<close> selector of that same file and a \<^verbatim>\<open>name\<close> selector:
  the evaluation does not fail with a cyclic-inclusion error, it never settles.
\<close>

theorem cyclic_inclusion_not_detected:
  "selectExpression demo (Some (SelectorJson ''json'' ''loop.json'')) ''cli'' = None"
proof -
  have "first_sub_n (Suc (Suc 0)) demo (SelectorJson ''json'' ''loop.json'')
      = Some (SelectorJson ''json'' ''loop.json'')"
    by (simp add: first_sub_eval)
  then have "unending demo (SelectorJson ''json'' ''loop.json'')"
    by (rule cycle_unending [rotated]) simp
  then show ?thesis
    by (rule unending_never_settles)
qed

subsection \<open>C2\<close>

text \<open>
  Claim C2. An expression that is no selector, no filter and no operator (none of
  \<^verbatim>\<open>scope\<close>, \<^verbatim>\<open>filter\<close> and \<^verbatim>\<open>op\<close> is truthy) makes \<^verbatim>\<open>selectExpression\<close> throw
  the \<^verbatim>\<open>SelectorError\<close> "Invalid object encountered in selector expression in
  <context>."; the message includes the context, and no list of projects is returned.
\<close>

theorem invalid_object_error:
  assumes "\<not> isSelector expr" and "\<not> isFilter expr" and "\<not> isOperator expr"
  shows "selectExpression env (Some expr) context =
           throw (SelectorError
             (''Invalid object encountered in selector expression in '' @ context @ ''.''))
         \<and> str_includes
             (''Invalid object encountered in selector expression in '' @ context @ ''.'') context
         \<and> (\<forall>ps. selectExpression env (Some expr) context \<noteq> return_ok ps)"
  using assms str_includes_append [of "''Invalid object encountered in selector expression in ''" "context" "''.''"]
  by (simp add: selectExpression_eq)

text \<open>C2 at work on the session above.\<close>

theorem invalid_object_error_witness:
  "\<not> isSelector (ExpressionJson (Some []) (Some ''a'') None None None None)
   \<and> \<not> isFilter (ExpressionJson (Some []) (Some ''a'') None None None None)
   \<and> \<not> isOperator (ExpressionJson (Some []) (Some ''a'') None None None None)
   \<and> selectExpression demo (Some (ExpressionJson (Some []) (Some ''a'') None None None None)) ''cli''
       = throw (SelectorError ''Invalid object encountered in selector expression in cli.'')"
proof -
  have h: "\<not> isSelector (ExpressionJson (Some []) (Some ''a'') None None None None)"
    "\<not> isFilter (ExpressionJson (Some []) (Some ''a'') None None None None)"
    "\<not> isOperator (ExpressionJson (Some []) (Some ''a'') None None None None)"
    by (simp_all add: isSelector_def isFilter_def isOperator_def truthy_def)
  from invalid_object_error [OF h, of demo "''cli''"] h show ?thesis by simp
qed

subsection \<open>C3\<close>

text \<open>
  Claim C3. The filter \<^verbatim>\<open>{filter: "to", arg: X}\<close> evaluates \<^verbatim>\<open>X\<close> and returns
  \<^verbatim>\<open>Selection.expandAllDependencies\<close> of its projects; \<^verbatim>\<open>{filter: "from", arg: X}\<close>
  returns \<^verbatim>\<open>Selection.expandAllDependencies\<close> of \<^verbatim>\<open>Selection.expandAllConsumers\<close> of
  them. The projects are equal as lists, so as sets; an error of \<^verbatim>\<open>X\<close> is the error of
  the filter, and the filter does not settle when \<^verbatim>\<open>X\<close> does not.
\<close>

theorem filter_to_from:
  "selectExpression env (Some (FilterJson ''to'' X)) context =
     await_ok (selectExpression env (Some X) context)
       (\<lambda>r. return_ok (Selection_expandAllDependencies env r))
   \<and> selectExpression env (Some (FilterJson ''from'' X)) context =
     await_ok (selectExpression env (Some X) context)
       (\<lambda>r. return_ok (Selection_expandAllDependencies env (Selection_expandAllConsumers env r)))"
  by (subst (1 3) selectExpression_eq) (simp add: evaluateFilter_eq)


text \<open>C3 at work on the session above.\<close>

theorem filter_to_from_witness:
  "selectExpression demo (Some (FilterJson ''to'' (SelectorJson ''name'' ''a''))) ''cli''
     = return_ok [''a'', ''b'', ''c'']
   \<and> set (Selection_expandAllDependencies demo [''a'']) = {''a'', ''b'', ''c''}
   \<and> selectExpression demo (Some (FilterJson ''from'' (SelectorJson ''name'' ''c''))) ''cli''
     = return_ok [''c'', ''b'', ''a'']"
proof -
  have d: "Selection_expandAllDependencies demo [''a''] = [''a'', ''b'', ''c'']"
    "Selection_expandAllDependencies demo (Selection_expandAllConsumers demo [''c''])
       = [''c'', ''b'', ''a'']"
    by (simp_all add: demo_eval)
  from filter_to_from [of demo "SelectorJson ''name'' ''a''" "''cli''"]
    filter_to_from [of demo "SelectorJson ''name'' ''c''" "''cli''"] d
  show ?thesis by (simp add: demo_name)
qed

subsection \<open>C4\<close>

text \<open>
  Claim C4, as the code has it. For a \<^verbatim>\<open>json\<close> selector whose file does not exist,
  the evaluation throws the \<^verbatim>\<open>SelectorError\<close> "Unable to find JSON file at
  "<absolute path>" in <context>.", which includes the resolved path and the context.
  For a file that the loader rejects with any other error (contents that are no JSON or
  that fail the schema, a file that cannot be read), \<^verbatim>\<open>tryLoadAsync\<close> throws that
  error again and the evaluation fails with it, unchanged: it is no \<^verbatim>\<open>SelectorError\<close>.
\<close>

theorem json_file_absent_or_invalid:
  "(loadAndValidateAsync env (getAbsolutePath env file) = Inl e \<and> isNotExistError e \<longrightarrow>
      selectExpression env (Some (SelectorJson ''json'' file)) context =
        throw (SelectorError
          (''Unable to find JSON file at '' @ [dq] @ getAbsolutePath env file @ [dq]
           @ '' in '' @ context @ ''.''))
      \<and> str_includes
          (''Unable to find JSON file at '' @ [dq] @ getAbsolutePath env file @ [dq]
           @ '' in '' @ context @ ''.'') (getAbsolutePath env file)
      \<and> str_includes
          (''Unable to find JSON file at '' @ [dq] @ getAbsolutePath env file @ [dq]
           @ '' in '' @ context @ ''.'') context)
   \<and> (loadAndValidateAsync env (getAbsolutePath env file) = Inl e \<and> \<not> isNotExistError e \<longrightarrow>
      selectExpression env (Some (SelectorJson ''json'' file)) context = throw (LoaderError e))"
proof -
  have i1: "str_includes ((''Unable to find JSON file at '' @ [dq]) @ getAbsolutePath env file @ ([dq]
           @ '' in '' @ context @ ''.'')) (getAbsolutePath env file)"
    by (rule str_includes_append)
  have i2: "str_includes ((''Unable to find JSON file at '' @ [dq] @ getAbsolutePath env file @ [dq]
           @ '' in '') @ context @ ''.'') context"
    by (rule str_includes_append)
  have absent: "tryLoadAsync env (getAbsolutePath env file) = Inr None"
    if "loadAndValidateAsync env (getAbsolutePath env file) = Inl e" "isNotExistError e"
    using that by (simp add: tryLoadAsync_def loadAsync_def)
  have invalid: "tryLoadAsync env (getAbsolutePath env file) = Inl e"
    if "loadAndValidateAsync env (getAbsolutePath env file) = Inl e" "\<not> isNotExistError e"
    using that by (simp add: tryLoadAsync_def loadAsync_def)
  have a: "selectExpression env (Some (SelectorJson ''json'' file)) context =
        throw (SelectorError
          (''Unable to find JSON file at '' @ [dq] @ getAbsolutePath env file @ [dq]
           @ '' in '' @ context @ ''.''))"
    if "loadAndValidateAsync env (getAbsolutePath env file) = Inl e" "isNotExistError e"
    unfolding json_selector_eq by (subst evaluateSelectorAsync_eq) (simp add: absent [OF that])
  have b: "selectExpression env (Some (SelectorJson ''json'' file)) context = throw (LoaderError e)"
    if "loadAndValidateAsync env (getAbsolutePath env file) = Inl e" "\<not> isNotExistError e"
    unfolding json_selector_eq by (subst evaluateSelectorAsync_eq) (simp add: invalid [OF that])
  from i1 i2 a b show ?thesis by (simp only: append_assoc) blast
qed

text \<open>C4 at work on the session above.\<close>

theorem json_file_absent_or_invalid_witness:
  "selectExpression demo (Some (SelectorJson ''json'' ''missing.json'')) ''cli''
     = throw (SelectorError
         (''Unable to find JSON file at '' @ [dq] @ ''/repo/missing.json'' @ [dq] @ '' in cli.''))
   \<and> selectExpression demo (Some (SelectorJson ''json'' ''./broken.json'')) ''cli''
     = throw (SelectorError
         (''Unable to find JSON file at '' @ [dq] @ ''/repo/apps/a/broken.json'' @ [dq] @ '' in cli.''))
   \<and> selectExpression demo (Some (SelectorJson ''json'' ''/repo/broken.json'')) ''cli''
     = throw (LoaderError (LoadFailure ''JSON validation failed''))"
proof -
  have p: "getAbsolutePath demo ''missing.json'' = ''/repo/missing.json''"
    "getAbsolutePath demo ''./broken.json'' = ''/repo/apps/a/broken.json''"
    "getAbsolutePath demo ''/repo/broken.json'' = ''/repo/broken.json''"
    by (simp_all add: getAbsolutePath_def demo_def demo_resolve_def startsWith_def)
  have l: "loadAndValidateAsync demo ''/repo/missing.json'' = Inl NotExist"
    "loadAndValidateAsync demo ''/repo/apps/a/broken.json'' = Inl NotExist"
    "loadAndValidateAsync demo ''/repo/broken.json'' = Inl (LoadFailure ''JSON validation failed'')"
    by (simp_all add: demo_def demo_files_def)
  have e: "isNotExistError NotExist" "\<not> isNotExistError (LoadFailure ''JSON validation failed'')"
    by (simp_all add: isNotExistError_def)
  from json_file_absent_or_invalid [of demo "''missing.json''" NotExist "''cli''"]
    json_file_absent_or_invalid [of demo "''./broken.json''" NotExist "''cli''"]
    json_file_absent_or_invalid [of demo "''/repo/broken.json''" "LoadFailure ''JSON validation failed''" "''cli''"]
    p l e
  show ?thesis by simp
qed

text \<open>
  Claim C4 as stated fails on the file \<^verbatim>\<open>/repo/broken.json\<close>, which exists and fails
  validation: the evaluation fails with the error of the loader, not a \<^verbatim>\<open>SelectorError\<close>.
\<close>

theorem invalid_json_file_raw_error:
  "selectExpression demo (Some (SelectorJson ''json'' ''broken.json'')) ''cli''
     = throw (LoaderError (LoadFailure ''JSON validation failed''))
   \<and> (\<forall>m. selectExpression demo (Some (SelectorJson ''json'' ''broken.json'')) ''cli''
         \<noteq> throw (SelectorError m))"
  by (simp add: demo_eval)

subsection \<open>C5\<close>

text \<open>
  Claim C5. For an operator \<^verbatim>\<open>and\<close> or \<^verbatim>\<open>or\<close>, \<^verbatim>\<open>args[0]\<close> is evaluated first: its
  error, or its not settling, is the outcome of the operator whatever \<^verbatim>\<open>args[1]\<close> is.
  When \<^verbatim>\<open>args[0]\<close> returns projects, empty or not, \<^verbatim>\<open>args[1]\<close> is evaluated: its
  error, or its not settling, is the outcome of the operator, and when it returns too the
  operator returns \<^verbatim>\<open>Selection.intersection\<close> (for \<^verbatim>\<open>and\<close>) or \<^verbatim>\<open>Selection.union\<close>
  (for \<^verbatim>\<open>or\<close>) of the two sets.
\<close>

theorem operator_evaluates_both_in_order:
  assumes "k = ''and'' \<or> k = ''or''"
  shows
    "(selectExpression env (Some a) context = throw e \<longrightarrow>
        selectExpression env (Some (OperatorJson k [a, b])) context = throw e)
     \<and> (selectExpression env (Some a) context = None \<longrightarrow>
        selectExpression env (Some (OperatorJson k [a, b])) context = None)
     \<and> (selectExpression env (Some a) context = return_ok x \<longrightarrow>
          (selectExpression env (Some b) context = throw e \<longrightarrow>
             selectExpression env (Some (OperatorJson k [a, b])) context = throw e)
        \<and> (selectExpression env (Some b) context = None \<longrightarrow>
             selectExpression env (Some (OperatorJson k [a, b])) context = None)
        \<and> (selectExpression env (Some b) context = return_ok y \<longrightarrow>
             selectExpression env (Some (OperatorJson k [a, b])) context =
               return_ok
                 ((if k = ''and'' then Selection_intersection env else Selection_union env)
                    (new_Set x) (new_Set y))))"
proof -
  have op_eq: "selectExpression env (Some (OperatorJson k [a, b])) context =
      await_ok (selectExpression env (Some a) context)
        (\<lambda>x. await_ok (selectExpression env (Some b) context)
          (\<lambda>y. return_ok
             ((if k = ''and'' then Selection_intersection env else Selection_union env)
                (new_Set x) (new_Set y))))"
    using assms by (subst selectExpression_eq) (auto simp: evaluateOperator_eq)
  show ?thesis
    unfolding op_eq by simp
qed

text \<open>C5 at work on the session above.\<close>

theorem operator_evaluates_both_in_order_witness:
  "selectExpression demo (Some (SelectorJson ''tag'' ''none'')) ''cli'' = return_ok []
   \<and> selectExpression demo (Some (SelectorJson ''bogus'' ''x'')) ''cli''
       = throw (SelectorError ''Unknown selector scope 'bogus' for value 'x' in cli.'')
   \<and> selectExpression demo
         (Some (OperatorJson ''and'' [SelectorJson ''tag'' ''none'', SelectorJson ''bogus'' ''x'']))
         ''cli''
       = throw (SelectorError ''Unknown selector scope 'bogus' for value 'x' in cli.'')"
proof -
  have b: "selectExpression demo (Some (SelectorJson ''bogus'' ''x'')) ''cli''
       = throw (SelectorError ''Unknown selector scope 'bogus' for value 'x' in cli.'')"
    by (simp add: demo_eval)
  from operator_evaluates_both_in_order [of "''and''" demo "SelectorJson ''tag'' ''none''" "''cli''" _
      "SelectorJson ''bogus'' ''x''" "[]"] b demo_tag(2)
  show ?thesis by simp
qed

subsection \<open>C6\<close>

text \<open>
  Claim C6. An expression whose \<^verbatim>\<open>scope\<close> is a non-empty string other than
  \<^verbatim>\<open>name\<close>, \<^verbatim>\<open>git\<close>, \<^verbatim>\<open>tag\<close>, \<^verbatim>\<open>version-policy\<close> and \<^verbatim>\<open>json\<close> (the scopes
  the constructor registers, see \<open>scopes_get_registered\<close>) makes \<^verbatim>\<open>selectExpression\<close>
  throw the \<^verbatim>\<open>SelectorError\<close> "Unknown selector scope '<scope>' for value '<value>' in
  <context>."; the message includes the scope, the value and the context.
\<close>

theorem unknown_scope_error:
  assumes "scope_prop expr = Some s" and "s \<noteq> []"
    and "s \<notin> {''name'', ''git'', ''tag'', ''version-policy'', ''json''}"
    and "value_prop expr = Some v"
  shows
    "selectExpression env (Some expr) context =
       throw (SelectorError
         (''Unknown selector scope '' @ [sq] @ s @ [sq] @ '' for value '' @ [sq] @ v @ [sq]
          @ '' in '' @ context @ ''.''))
     \<and> str_includes
         (''Unknown selector scope '' @ [sq] @ s @ [sq] @ '' for value '' @ [sq] @ v @ [sq]
          @ '' in '' @ context @ ''.'') s
     \<and> str_includes
         (''Unknown selector scope '' @ [sq] @ s @ [sq] @ '' for value '' @ [sq] @ v @ [sq]
          @ '' in '' @ context @ ''.'') v
     \<and> str_includes
         (''Unknown selector scope '' @ [sq] @ s @ [sq] @ '' for value '' @ [sq] @ v @ [sq]
          @ '' in '' @ context @ ''.'') context
     \<and> (\<forall>t. (scopes_get (Some t) \<noteq> None) =
            (t \<in> {''name'', ''git'', ''tag'', ''version-policy'', ''json''}))"
proof -
  have none: "scopes_get (Some s) = None"
    using assms(3) scopes_get_registered [of s] by blast
  have sel: "isSelector expr"
    using assms(1,2) by (simp add: isSelector_def truthy_def)
  have i1: "str_includes ((''Unknown selector scope '' @ [sq]) @ s @ ([sq] @ '' for value '' @ [sq] @ v @ [sq]
          @ '' in '' @ context @ ''.'')) s"
    by (rule str_includes_append)
  have i2: "str_includes ((''Unknown selector scope '' @ [sq] @ s @ [sq] @ '' for value '' @ [sq]) @ v @ ([sq]
          @ '' in '' @ context @ ''.'')) v"
    by (rule str_includes_append)
  have i3: "str_includes ((''Unknown selector scope '' @ [sq] @ s @ [sq] @ '' for value '' @ [sq] @ v @ [sq]
          @ '' in '') @ context @ ''.'') context"
    by (rule str_includes_append)
  have "selectExpression env (Some expr) context =
       throw (SelectorError
         (''Unknown selector scope '' @ [sq] @ s @ [sq] @ '' for value '' @ [sq] @ v @ [sq]
          @ '' in '' @ context @ ''.''))"
    using none sel assms(1,4) by (simp add: selectExpression_eq evaluateSelector_eq template_def)
  with i1 i2 i3 scopes_get_registered show ?thesis by (simp only: append_assoc) blast
qed

text \<open>C6 at work on the session above.\<close>

theorem unknown_scope_error_witness:
  "selectExpression demo (Some (SelectorJson ''bogus'' ''my-app'')) ''rush build''
     = throw (SelectorError ''Unknown selector scope 'bogus' for value 'my-app' in rush build.'')
   \<and> str_includes ''Unknown selector scope 'bogus' for value 'my-app' in rush build.'' ''bogus''
   \<and> str_includes ''Unknown selector scope 'bogus' for value 'my-app' in rush build.'' ''my-app''
   \<and> str_includes ''Unknown selector scope 'bogus' for value 'my-app' in rush build.'' ''rush build''"
proof -
  have h: "scope_prop (SelectorJson ''bogus'' ''my-app'') = Some ''bogus''" "''bogus'' \<noteq> []"
    "''bogus'' \<notin> {''name'', ''git'', ''tag'', ''version-policy'', ''json''}"
    "value_prop (SelectorJson ''bogus'' ''my-app'') = Some ''my-app''"
    by simp_all
  from unknown_scope_error [OF h, of demo "''rush build''"] show ?thesis by simp
qed

subsection \<open>C7\<close>

text \<open>
  Claim C7. The filter \<^verbatim>\<open>{filter: "only", arg: X}\<close> has the outcome of \<^verbatim>\<open>X\<close> in the
  same context: the same list of projects, the same error, or neither settles.
\<close>

theorem filter_only_identity:
  "selectExpression env (Some (FilterJson ''only'' X)) context = selectExpression env (Some X) context"
  by (subst selectExpression_eq) (simp add: evaluateFilter_eq)

text \<open>C7 at work on the session above.\<close>

theorem filter_only_identity_witness:
  "selectExpression demo (Some (FilterJson ''only'' (SelectorJson ''tag'' ''frontend''))) ''cli''
     = return_ok [''a'', ''b'']"
  using filter_only_identity [of demo "SelectorJson ''tag'' ''frontend''" "''cli''"] demo_tag(1) by simp

subsection \<open>C8\<close>

text \<open>
  Claim C8. When \<^verbatim>\<open>X\<close> returns projects that are all among the projects of the Rush
  configuration, \<^verbatim>\<open>{op: "not", args: [{op: "not", args: [X]}]}\<close> returns the same set of
  projects. An error of \<^verbatim>\<open>X\<close> is the error of the double negation, and the double
  negation does not settle when \<^verbatim>\<open>X\<close> does not. (By \<open>selectExpression_within_projects\<close>
  every evaluation returns projects of the configuration in a session whose parsers and
  \<^verbatim>\<open>Selection\<close> functions do.)
\<close>

theorem not_not_same_set:
  "(selectExpression env (Some X) context = return_ok r \<and> set r \<subseteq> set (projects env) \<longrightarrow>
      (\<exists>r'. selectExpression env (Some (OperatorJson ''not'' [OperatorJson ''not'' [X]])) context
              = return_ok r' \<and> set r' = set r))
   \<and> (selectExpression env (Some X) context = throw e \<longrightarrow>
        selectExpression env (Some (OperatorJson ''not'' [OperatorJson ''not'' [X]])) context
          = throw e)
   \<and> (selectExpression env (Some X) context = None \<longrightarrow>
        selectExpression env (Some (OperatorJson ''not'' [OperatorJson ''not'' [X]])) context
          = None)"
proof -
  have not_eq: "selectExpression env (Some (OperatorJson ''not'' [Y])) context =
      await_ok (selectExpression env (Some Y) context)
        (\<lambda>result. return_ok (filter (\<lambda>p. p \<notin> set result) (projects env)))" for Y
    by (subst selectExpression_eq) (simp add: evaluateOperator_eq)
  show ?thesis
    by (auto simp: not_eq)
qed

text \<open>C8 at work on the session above.\<close>

theorem not_not_same_set_witness:
  "selectExpression demo (Some (SelectorJson ''tag'' ''frontend'')) ''cli'' = return_ok [''a'', ''b'']
   \<and> set [''a'', ''b''] \<subseteq> set (projects demo)
   \<and> (\<exists>r'. selectExpression demo
         (Some (OperatorJson ''not'' [OperatorJson ''not'' [SelectorJson ''tag'' ''frontend'']])) ''cli''
         = return_ok r' \<and> set r' = {''a'', ''b''})"
proof -
  have u: "set [''a'', ''b''] \<subseteq> set (projects demo)" by (simp add: demo_def)
  from not_not_same_set [of demo "SelectorJson ''tag'' ''frontend''" "''cli''" "[''a'', ''b'']"] demo_tag(1) u
  show ?thesis by simp
qed

subsection \<open>C9\<close>

text \<open>
  Claim C9. \<^verbatim>\<open>getAbsolutePath\<close> resolves a file that starts with a dot against the
  working directory, and any other file against the folder of rush.json; a \<^verbatim>\<open>json\<close>
  selector evaluates the expression that the loader finds at that path, under the context
  "JSON file <value> in <context>".
\<close>

theorem json_path_resolution:
  "(startsWith file ''.'' \<longleftrightarrow> (\<exists>rest. file = CHR ''.'' # rest))
   \<and> (startsWith file ''.'' \<longrightarrow> getAbsolutePath env file = path_resolve env (cwd env) file)
   \<and> (\<not> startsWith file ''.'' \<longrightarrow>
        getAbsolutePath env file = path_resolve env (rushJsonFolder env) file)
   \<and> (tryLoadAsync env
          (path_resolve env (if startsWith file ''.'' then cwd env else rushJsonFolder env) file)
        = Inr (Some loaded) \<longrightarrow>
        selectExpression env (Some (SelectorJson ''json'' file)) context =
          selectExpression env (Some loaded) (''JSON file '' @ file @ '' in '' @ context))"
proof -
  have a: "startsWith file ''.'' \<longleftrightarrow> (\<exists>rest. file = CHR ''.'' # rest)"
    by (cases "file") (auto simp: startsWith_def)
  have j: "selectExpression env (Some (SelectorJson ''json'' file)) context =
      evaluateSelectorAsync env JsonFileSelectorParser (Some file) context"
    by (subst selectExpression_eq) (simp add: evaluateSelector_eq scopes_get_def scopes_def)
  have b: "startsWith file ''.'' \<Longrightarrow> getAbsolutePath env file = path_resolve env (cwd env) file"
    by (simp add: getAbsolutePath_def)
  have c: "\<not> startsWith file ''.'' \<Longrightarrow>
      getAbsolutePath env file = path_resolve env (rushJsonFolder env) file"
    by (simp add: getAbsolutePath_def)
  have p: "path_resolve env (if startsWith file ''.'' then cwd env else rushJsonFolder env) file
      = getAbsolutePath env file"
    by (simp add: getAbsolutePath_def)
  have d: "tryLoadAsync env (getAbsolutePath env file) = Inr (Some loaded) \<Longrightarrow>
      selectExpression env (Some (SelectorJson ''json'' file)) context =
        selectExpression env (Some loaded) (''JSON file '' @ file @ '' in '' @ context)"
    unfolding j by (subst evaluateSelectorAsync_eq) simp
  from a b c d show ?thesis
    unfolding p by blast
qed

text \<open>C9 at work on the session above.\<close>

theorem json_path_resolution_witness:
  "startsWith ''./local.json'' ''.''
   \<and> getAbsolutePath demo ''./local.json'' = path_resolve demo (cwd demo) ''./local.json''
   \<and> getAbsolutePath demo ''./local.json'' = ''/repo/apps/a/local.json''
   \<and> \<not> startsWith ''front.json'' ''.''
   \<and> getAbsolutePath demo ''front.json'' = path_resolve demo (rushJsonFolder demo) ''front.json''
   \<and> getAbsolutePath demo ''front.json'' = ''/repo/front.json''
   \<and> selectExpression demo (Some (SelectorJson ''json'' ''./local.json'')) ''cli''
       = selectExpression demo (Some (SelectorJson ''name'' ''b'')) ''JSON file ./local.json in cli''"
proof -
  have s: "startsWith ''./local.json'' ''.''" "\<not> startsWith ''front.json'' ''.''"
    by (simp_all add: startsWith_def)
  have r: "path_resolve demo (cwd demo) ''./local.json'' = ''/repo/apps/a/local.json''"
    "path_resolve demo (rushJsonFolder demo) ''front.json'' = ''/repo/front.json''"
    by (simp_all add: demo_def demo_resolve_def startsWith_def)
  have l: "tryLoadAsync demo ''/repo/apps/a/local.json'' = Inr (Some (SelectorJson ''name'' ''b''))"
    by (simp add: tryLoadAsync_def loadAsync_def demo_def demo_files_def)
  from json_path_resolution [of "''./local.json''" demo "SelectorJson ''name'' ''b''" "''cli''"]
    json_path_resolution [of "''front.json''" demo "SelectorJson ''name'' ''b''" "''cli''"] s r l
  show ?thesis by simp
qed

subsection \<open>C10\<close>

text \<open>
  Claim C10, as the code has it. \<^verbatim>\<open>selectExpression\<close> tests the truthiness of
  \<^verbatim>\<open>scope\<close>, then \<^verbatim>\<open>filter\<close>, then \<^verbatim>\<open>op\<close>. An expression whose \<^verbatim>\<open>scope\<close> is the
  empty string and whose \<^verbatim>\<open>filter\<close> and \<^verbatim>\<open>op\<close> are not truthy fails with the
  invalid-object \<^verbatim>\<open>SelectorError\<close>, not with an unknown-scope error. An expression with
  a truthy \<^verbatim>\<open>scope\<close> is evaluated as a selector and its properties other than
  \<^verbatim>\<open>scope\<close> and \<^verbatim>\<open>value\<close> are not read. Without a truthy \<^verbatim>\<open>scope\<close>, a truthy
  \<^verbatim>\<open>filter\<close> makes it a filter, and without that a truthy \<^verbatim>\<open>op\<close> an operator.
\<close>

theorem classification_by_truthiness:
  "(scope_prop expr = Some [] \<and> \<not> truthy (filter_prop expr) \<and> \<not> truthy (op_prop expr) \<longrightarrow>
      selectExpression env (Some expr) context =
        throw (SelectorError
          (''Invalid object encountered in selector expression in '' @ context @ ''.'')))
   \<and> (truthy (scope_prop expr) \<longrightarrow>
      selectExpression env (Some expr) context = evaluateSelector env expr context
      \<and> selectExpression env (Some expr) context =
          selectExpression env
            (Some (ExpressionJson (scope_prop expr) (value_prop expr) None None None None)) context)
   \<and> (\<not> truthy (scope_prop expr) \<and> truthy (filter_prop expr) \<longrightarrow>
      selectExpression env (Some expr) context = evaluateFilter env expr context)
   \<and> (\<not> truthy (scope_prop expr) \<and> \<not> truthy (filter_prop expr) \<and> truthy (op_prop expr) \<longrightarrow>
      selectExpression env (Some expr) context = evaluateOperator env expr context)"
proof -
  have a: "selectExpression env (Some expr) context =
        throw (SelectorError
          (''Invalid object encountered in selector expression in '' @ context @ ''.''))"
    if "scope_prop expr = Some []" "\<not> truthy (filter_prop expr)" "\<not> truthy (op_prop expr)"
    using that by (simp add: selectExpression_eq isSelector_def isFilter_def isOperator_def truthy_def)
  have b: "selectExpression env (Some e) context = evaluateSelector env e context"
    if "truthy (scope_prop e)" for e
    using that by (simp add: selectExpression_eq isSelector_def)
  have b': "selectExpression env (Some expr) context =
          selectExpression env
            (Some (ExpressionJson (scope_prop expr) (value_prop expr) None None None None)) context"
    if "truthy (scope_prop expr)"
    using that b [of expr]
      b [of "ExpressionJson (scope_prop expr) (value_prop expr) None None None None"]
      evaluateSelector_reads [of expr
        "ExpressionJson (scope_prop expr) (value_prop expr) None None None None" env "context"]
    by simp
  have c: "selectExpression env (Some expr) context = evaluateFilter env expr context"
    if "\<not> truthy (scope_prop expr)" "truthy (filter_prop expr)"
    using that by (simp add: selectExpression_eq isSelector_def isFilter_def)
  have d: "selectExpression env (Some expr) context = evaluateOperator env expr context"
    if "\<not> truthy (scope_prop expr)" "\<not> truthy (filter_prop expr)" "truthy (op_prop expr)"
    using that by (simp add: selectExpression_eq isSelector_def isFilter_def isOperator_def)
  from a b [of expr] b' c d show ?thesis by blast
qed

text \<open>C10 at work on the session above.\<close>

theorem classification_by_truthiness_witness:
  "selectExpression demo (Some (ExpressionJson (Some []) (Some ''a'') None None None None)) ''cli''
     = throw (SelectorError ''Invalid object encountered in selector expression in cli.'')
   \<and> selectExpression demo
       (Some (ExpressionJson (Some ''name'') (Some ''a'') (Some ''to'')
          (Some (SelectorJson ''name'' ''c'')) (Some ''not'') (Some []))) ''cli''
     = return_ok [''a'']"
proof -
  have a: "selectExpression demo (Some (ExpressionJson (Some []) (Some ''a'') None None None None)) ''cli''
     = throw (SelectorError ''Invalid object encountered in selector expression in cli.'')"
    using classification_by_truthiness [of "ExpressionJson (Some []) (Some ''a'') None None None None" demo "''cli''",
        THEN conjunct1]
    by (simp add: truthy_def)
  have t: "truthy (scope_prop (ExpressionJson (Some ''name'') (Some ''a'') (Some ''to'')
          (Some (SelectorJson ''name'' ''c'')) (Some ''not'') (Some [])))"
    by (simp add: truthy_def)
  have b: "selectExpression demo
       (Some (ExpressionJson (Some ''name'') (Some ''a'') (Some ''to'')
          (Some (SelectorJson ''name'' ''c'')) (Some ''not'') (Some []))) ''cli''
     = selectExpression demo (Some (SelectorJson ''name'' ''a'')) ''cli''"
    using classification_by_truthiness [of "ExpressionJson (Some ''name'') (Some ''a'') (Some ''to'')
          (Some (SelectorJson ''name'' ''c'')) (Some ''not'') (Some [])" demo "''cli''",
        THEN conjunct2, THEN conjunct1, rule_format, OF t, THEN conjunct2]
    by (simp add: SelectorJson_def)
  from a b demo_name(1) show ?thesis by simp
qed

text \<open>
  Claim C10 as stated fails on an expression whose \<^verbatim>\<open>scope\<close> is the empty string and
  whose \<^verbatim>\<open>filter\<close> is \<^verbatim>\<open>only\<close>: it is evaluated as a filter and returns projects.
\<close>

theorem empty_scope_with_filter_evaluates:
  "scope_prop (ExpressionJson (Some []) (Some ''x'') (Some ''only'')
      (Some (SelectorJson ''name'' ''a'')) None None) = Some []
   \<and> selectExpression demo
       (Some (ExpressionJson (Some []) (Some ''x'') (Some ''only'')
          (Some (SelectorJson ''name'' ''a'')) None None)) ''cli''
     = return_ok [''a'']"
  by (simp add: demo_eval)

end
